theory Spec2Isabelle
  imports Main
begin

section \<open>Data of the effects query builder\<close>

text \<open>
  The file \<^verbatim>\<open>services/horizon/internal/db2/history/effect.go\<close> builds SQL queries over the
  table \<^verbatim>\<open>history_effects\<close>. Go's \<^verbatim>\<open>int64\<close> and \<^verbatim>\<open>int32\<close> values are integers here; where
  the source adds on an \<^verbatim>\<open>int32\<close> the wrap-around is written out (\<open>wrap32\<close>).
\<close>

definition MaxInt32 :: int where
  "MaxInt32 = 2147483647"

definition MaxInt64 :: int where
  "MaxInt64 = 9223372036854775807"

definition wrap32 :: "int \<Rightarrow> int" where
  "wrap32 x = (x + 2147483648) mod 4294967296 - 2147483648"

datatype error =
    StorageError string
  | MalformedCursor
  | Errorf string
  | Wrap error string

text \<open>\<^verbatim>\<open>errors.Wrap\<close> of a nil error is nil.\<close>

definition errors_Wrap :: "error option \<Rightarrow> string \<Rightarrow> error option" where
  "errors_Wrap err msg = (case err of None \<Rightarrow> None | Some e \<Rightarrow> Some (Wrap e msg))"

text \<open>\<^verbatim>\<open>null.String\<close>: a string that may be SQL NULL.\<close>

record null_String =
  String :: string
  Valid :: bool

text \<open>
  A row of \<^verbatim>\<open>history_effects\<close>. The struct is declared in another file of the package; these
  are the fields this file reads and the columns its predicates name.
\<close>

record Effect =
  HistoryAccountID :: int
  HistoryOperationID :: int
  Order :: int
  DetailsString :: null_String

record Account =
  Account_ID :: int

record Ledger =
  Ledger_Sequence :: int

record Transaction =
  Transaction_ID :: int

text \<open>\<^verbatim>\<open>db2.PageQuery\<close>: cursor, direction and limit of one page.\<close>

record PageQuery =
  Cursor :: string
  Order :: string
  Limit :: nat

subsection \<open>The query under construction\<close>

text \<open>
  The SQL fragments handed to the builder's \<^verbatim>\<open>Where\<close>, with their placeholders filled by the
  arguments: a condition over the columns of one row.
\<close>

datatype column = heff_history_account_id | heff_history_operation_id | heff_order

datatype cond =
    Ge column int
  | Gt column int
  | Le column int
  | Lt column int
  | Eq column int
  | SqlAnd cond cond
  | SqlOr cond cond
  | SqlIn column "int list"

fun column_value :: "Effect \<Rightarrow> column \<Rightarrow> int" where
  "column_value r heff_history_account_id = HistoryAccountID r"
| "column_value r heff_history_operation_id = HistoryOperationID r"
| "column_value r heff_order = Effect.Order r"

fun holds :: "cond \<Rightarrow> Effect \<Rightarrow> bool" where
  "holds (Ge c v) r = (column_value r c \<ge> v)"
| "holds (Gt c v) r = (column_value r c > v)"
| "holds (Le c v) r = (column_value r c \<le> v)"
| "holds (Lt c v) r = (column_value r c < v)"
| "holds (Eq c v) r = (column_value r c = v)"
| "holds (SqlAnd a b) r = (holds a r \<and> holds b r)"
| "holds (SqlOr a b) r = (holds a r \<or> holds b r)"
| "holds (SqlIn c vs) r = (column_value r c \<in> set vs)"

text \<open>The state of squirrel's \<^verbatim>\<open>SelectBuilder\<close> that this file touches.\<close>

record SelectBuilder =
  Columns :: "string list"
  From :: string
  Joins :: "string list"
  WhereParts :: "cond list"
  OrderByParts :: "string list"
  LimitPart :: "nat option"

definition sq_Where :: "SelectBuilder \<Rightarrow> cond \<Rightarrow> SelectBuilder" where
  "sq_Where b c = b\<lparr>WhereParts := WhereParts b @ [c]\<rparr>"

definition sq_OrderBy :: "SelectBuilder \<Rightarrow> string \<Rightarrow> SelectBuilder" where
  "sq_OrderBy b s = b\<lparr>OrderByParts := OrderByParts b @ [s]\<rparr>"

definition sq_Limit :: "SelectBuilder \<Rightarrow> nat \<Rightarrow> SelectBuilder" where
  "sq_Limit b n = b\<lparr>LimitPart := Some n\<rparr>"

text \<open>A row is selected when every \<^verbatim>\<open>Where\<close> part holds of it (the parts are joined by AND).\<close>

fun all_hold :: "cond list \<Rightarrow> Effect \<Rightarrow> bool" where
  "all_hold [] r = True"
| "all_hold (c # cs) r = (holds c r \<and> all_hold cs r)"

definition selects :: "SelectBuilder \<Rightarrow> Effect \<Rightarrow> bool" where
  "selects b r = all_hold (WhereParts b) r"

definition selectEffect :: SelectBuilder where
  "selectEffect =
     \<lparr>Columns = [''heff.*, hacc.address''],
      From = ''history_effects heff'',
      Joins = [''LEFT JOIN history_accounts hacc ON hacc.id = heff.history_account_id''],
      WhereParts = [],
      OrderByParts = [],
      LimitPart = None\<rparr>"

subsection \<open>The storage session\<close>

text \<open>
  The parent \<^verbatim>\<open>Q\<close> is the database session. Its answers are the fields of the record; every
  call made to it is appended to \<open>issued\<close>, so that a theorem can say which storage calls a
  chain of builder calls makes.
\<close>

datatype arg = ArgString string | ArgInt64 int | ArgUint64 nat

datatype storage_call =
    CallAccountByAddress string
  | CallLedgerBySequence int
  | CallTransactionByHash string
  | CallSelectRaw "string list" "arg list"
  | CallSelect SelectBuilder

record Q =
  accountAnswer :: "string \<Rightarrow> error + Account"
  ledgerAnswer :: "int \<Rightarrow> error + Ledger"
  transactionAnswer :: "string \<Rightarrow> error + Transaction"
  rawAnswer :: "string list \<Rightarrow> arg list \<Rightarrow> error + int list"
  selectAnswer :: "SelectBuilder \<Rightarrow> error + Effect list"
  issued :: "storage_call list"

definition AccountByAddress :: "Q \<Rightarrow> string \<Rightarrow> (error + Account) \<times> Q" where
  "AccountByAddress p aid =
     (accountAnswer p aid, p\<lparr>issued := issued p @ [CallAccountByAddress aid]\<rparr>)"

definition LedgerBySequence :: "Q \<Rightarrow> int \<Rightarrow> (error + Ledger) \<times> Q" where
  "LedgerBySequence p seq =
     (ledgerAnswer p seq, p\<lparr>issued := issued p @ [CallLedgerBySequence seq]\<rparr>)"

definition TransactionByHash :: "Q \<Rightarrow> string \<Rightarrow> (error + Transaction) \<times> Q" where
  "TransactionByHash p hash =
     (transactionAnswer p hash, p\<lparr>issued := issued p @ [CallTransactionByHash hash]\<rparr>)"

definition SelectRaw :: "Q \<Rightarrow> string list \<Rightarrow> arg list \<Rightarrow> (error + int list) \<times> Q" where
  "SelectRaw p query args =
     (rawAnswer p query args, p\<lparr>issued := issued p @ [CallSelectRaw query args]\<rparr>)"

definition Q_Select :: "Q \<Rightarrow> SelectBuilder \<Rightarrow> (error + Effect list) \<times> Q" where
  "Q_Select p b =
     (selectAnswer p b, p\<lparr>issued := issued p @ [CallSelect b]\<rparr>)"

definition error_of :: "error + 'a \<Rightarrow> error option" where
  "error_of res = (case res of Inl e \<Rightarrow> Some e | Inr _ \<Rightarrow> None)"

record EffectsQ =
  Err :: "error option"
  parent :: Q
  sql :: SelectBuilder

definition Effects :: "Q \<Rightarrow> EffectsQ" where
  "Effects q = \<lparr>Err = None, parent = q, sql = selectEffect\<rparr>"

section \<open>Identifiers and paging tokens\<close>

subsection \<open>Formatting integers as \<^verbatim>\<open>fmt.Sprintf\<close> does\<close>

definition digit_char :: "nat \<Rightarrow> char" where
  "digit_char d = ''0123456789'' ! d"

function digits :: "nat \<Rightarrow> string" where
  "digits n = (if n < 10 then [digit_char n] else digits (n div 10) @ [digit_char (n mod 10)])"
  by pat_completeness auto
termination
  by (relation "measure (\<lambda>n. n)") auto

declare digits.simps [simp del]

text \<open>The number that a string of decimal digits denotes (for the proofs about \<open>digits\<close>).\<close>

fun decimal_value :: "string \<Rightarrow> nat" where
  "decimal_value [] = 0"
| "decimal_value (c # s) = (of_char c - 48) * 10 ^ length s + decimal_value s"

fun all_digits :: "string \<Rightarrow> bool" where
  "all_digits [] = True"
| "all_digits (c # s) = (48 \<le> (of_char c :: nat) \<and> (of_char c :: nat) \<le> 57 \<and> all_digits s)"

text \<open>The verb \<^verbatim>\<open>%d\<close>: a minus sign for a negative number, then the decimal digits.\<close>

definition fmt_d :: "int \<Rightarrow> string" where
  "fmt_d n = (if n < 0 then CHR ''-'' # digits (nat (- n)) else digits (nat n))"

definition zero_pad :: "nat \<Rightarrow> string \<Rightarrow> string" where
  "zero_pad w s = replicate (w - length s) CHR ''0'' @ s"

text \<open>
  The verb \<^verbatim>\<open>%0wd\<close>: zeros fill the width \<open>w\<close> after the sign, and the sign counts in the
  width, so \<^verbatim>\<open>%05d\<close> of -42 is \<^verbatim>\<open>-0042\<close>. A number too long for the width is not cut.
\<close>

definition fmt_0d :: "nat \<Rightarrow> int \<Rightarrow> string" where
  "fmt_0d w n =
     (if n < 0 then CHR ''-'' # zero_pad (w - 1) (digits (nat (- n)))
      else zero_pad w (digits (nat n)))"

definition ID :: "Effect \<Rightarrow> string" where
  "ID r = fmt_0d 19 (HistoryOperationID r) @ ''-'' @ fmt_0d 10 (Effect.Order r)"

definition PagingToken :: "Effect \<Rightarrow> string" where
  "PagingToken r = fmt_d (HistoryOperationID r) @ ''-'' @ fmt_d (Effect.Order r)"

text \<open>Go compares strings byte by byte; a proper prefix is smaller.\<close>

fun string_less :: "string \<Rightarrow> string \<Rightarrow> bool" where
  "string_less [] [] = False"
| "string_less [] (y # ys) = True"
| "string_less (x # xs) [] = False"
| "string_less (x # xs) (y # ys) =
     ((of_char x :: nat) < of_char y \<or> (x = y \<and> string_less xs ys))"

definition pair_less :: "int \<times> int \<Rightarrow> int \<times> int \<Rightarrow> bool" where
  "pair_less a b = (fst a < fst b \<or> (fst a = fst b \<and> snd a < snd b))"

subsection \<open>The cursor codec\<close>

text \<open>
  \<^verbatim>\<open>db2.PageQuery.CursorInt64Pair\<close> and \<^verbatim>\<open>db2.DefaultPairSep\<close> are in the package \<^verbatim>\<open>db2\<close>,
  another package of the repository, outside the file verified here. The definitions of
  this subsection follow the specification's contract of the cursor codec.
\<close>

text \<open>
  Modelled from the spec: the two steps of the decoder of the cursor, which is in the
  package \<^verbatim>\<open>db2\<close>. \<open>split_on\<close> cuts a token at every separator, so that a token is "exactly
  two integer fields joined by separator" when it gives two fields; \<open>parse_integer\<close>
  reads a field as a decimal integer, an optional minus sign and at least one digit.
\<close>

fun split_on :: "char \<Rightarrow> string \<Rightarrow> string list" where
  "split_on sep [] = [ [] ]"
| "split_on sep (c # cs) =
     (if c = sep then [] # split_on sep cs
      else (case split_on sep cs of
              [] \<Rightarrow> [ [c] ]
            | f # fs \<Rightarrow> (c # f) # fs))"

definition digit_value :: "char \<Rightarrow> nat option" where
  "digit_value c =
     (let b = (of_char c :: nat) in if 48 \<le> b \<and> b \<le> 57 then Some (b - 48) else None)"

fun parse_digits :: "nat \<Rightarrow> string \<Rightarrow> nat option" where
  "parse_digits acc [] = Some acc"
| "parse_digits acc (c # cs) =
     (case digit_value c of
        None \<Rightarrow> None
      | Some d \<Rightarrow> parse_digits (10 * acc + d) cs)"

definition parse_integer :: "string \<Rightarrow> int option" where
  "parse_integer s =
     (case s of
        [] \<Rightarrow> None
      | c # cs \<Rightarrow>
          if c = CHR ''-''
          then (if cs = [] then None else map_option (\<lambda>n. - int n) (parse_digits 0 cs))
          else map_option int (parse_digits 0 s))"

definition is_int64 :: "int \<Rightarrow> bool" where
  "is_int64 v = (- MaxInt64 - 1 \<le> v \<and> v \<le> MaxInt64)"

text \<open>
  Modelled from the spec: \<^verbatim>\<open>db2.DefaultPairSep\<close>, the separator of the paging token
  ("\<^verbatim>\<open>-\<close> as separator").
\<close>

definition DefaultPairSep :: char where
  "DefaultPairSep = CHR ''-''"

text \<open>
  Modelled from the spec: \<^verbatim>\<open>db2.PageQuery.CursorInt64Pair\<close>, the decoder of the cursor
  ("decode(token, separator) -> (major int64, minor int64); fails with MalformedCursor if
  the token is not exactly two integer fields joined by separator", the fields being
  decimal integers).
\<close>

definition CursorInt64Pair :: "PageQuery \<Rightarrow> char \<Rightarrow> error + int \<times> int" where
  "CursorInt64Pair p sep =
     (case split_on sep (Cursor p) of
        [a, b] \<Rightarrow>
          (case (parse_integer a, parse_integer b) of
             (Some l, Some r) \<Rightarrow>
               if is_int64 l \<and> is_int64 r then Inr (l, r) else Inl MalformedCursor
           | _ \<Rightarrow> Inl MalformedCursor)
      | _ \<Rightarrow> Inl MalformedCursor)"

section \<open>The composite key codec\<close>

text \<open>
  \<^verbatim>\<open>toid.ID\<close> has three \<^verbatim>\<open>int32\<close> fields. The functions of the package \<^verbatim>\<open>toid\<close> that this
  file calls (\<^verbatim>\<open>Parse\<close>, \<^verbatim>\<open>ToInt64\<close>, \<^verbatim>\<open>IncOperationOrder\<close>) are outside the file
  verified here and the specification leaves the codec opaque, so the filters take them as
  a parameter.
\<close>

record toid_ID =
  LedgerSequence :: int
  TransactionOrder :: int
  OperationOrder :: int

record toid =
  Parse :: "int \<Rightarrow> toid_ID"
  ToInt64 :: "toid_ID \<Rightarrow> int"
  IncOperationOrder :: "toid_ID \<Rightarrow> toid_ID"




section \<open>The filters\<close>

definition ForAccount :: "EffectsQ \<Rightarrow> string \<Rightarrow> EffectsQ" where
  "ForAccount q aid =
     (let (res, p) = AccountByAddress (parent q) aid;
          q1 = q\<lparr>Err := error_of res, parent := p\<rparr>
      in case res of
           Inl e \<Rightarrow> q1
         | Inr account \<Rightarrow>
             q1\<lparr>sql := sq_Where (sql q1) (Eq heff_history_account_id (Account_ID account))\<rparr>)"

definition ForLedger :: "toid \<Rightarrow> EffectsQ \<Rightarrow> int \<Rightarrow> EffectsQ" where
  "ForLedger c q seq =
     (let (res, p) = LedgerBySequence (parent q) seq;
          q1 = q\<lparr>Err := error_of res, parent := p\<rparr>
      in case res of
           Inl e \<Rightarrow> q1
         | Inr ledger \<Rightarrow>
             (let start = \<lparr>LedgerSequence = seq, TransactionOrder = 0, OperationOrder = 0\<rparr>;
                  end = \<lparr>LedgerSequence = wrap32 (seq + 1), TransactionOrder = 0,
                         OperationOrder = 0\<rparr>
              in q1\<lparr>sql := sq_Where (sql q1)
                     (SqlAnd (Ge heff_history_operation_id (ToInt64 c start))
                             (Lt heff_history_operation_id (ToInt64 c end)))\<rparr>))"

definition ForOperation :: "toid \<Rightarrow> EffectsQ \<Rightarrow> int \<Rightarrow> EffectsQ" where
  "ForOperation c q opid =
     (let start = Parse c opid;
          end = IncOperationOrder c start
      in q\<lparr>sql := sq_Where (sql q)
             (SqlAnd (Ge heff_history_operation_id (ToInt64 c start))
                     (Lt heff_history_operation_id (ToInt64 c end)))\<rparr>)"

text \<open>
  The text of the raw query, line by line (the white space around the lines left out) and
  the tail chosen by the direction.
\<close>

definition liquidity_pool_query :: "string list" where
  "liquidity_pool_query =
     [''SELECT holp.history_operation_id'',
      ''FROM history_operation_liquidity_pools holp'',
      ''WHERE holp.history_liquidity_pool_id = (SELECT id FROM history_liquidity_pools WHERE liquidity_pool_id =  ?)'']"

definition ForLiquidityPool :: "EffectsQ \<Rightarrow> PageQuery \<Rightarrow> string \<Rightarrow> EffectsQ" where
  "ForLiquidityPool q page pool =
     (case Err q of
        Some e \<Rightarrow> q
      | None \<Rightarrow>
          (case CursorInt64Pair page DefaultPairSep of
             Inl err \<Rightarrow> q\<lparr>Err := Some err\<rparr>
           | Inr (op, _) \<Rightarrow>
               (let run = (\<lambda>query.
                      (let (res, p) = SelectRaw (parent q) query
                                        [ArgString pool, ArgInt64 op, ArgUint64 (Limit page)];
                           q1 = q\<lparr>parent := p\<rparr>
                       in case res of
                            Inl err \<Rightarrow> q1\<lparr>Err := Some err\<rparr>
                          | Inr liquidityPoolOperationIDs \<Rightarrow>
                              q1\<lparr>sql := sq_Where (sql q1)
                                     (SqlIn heff_history_operation_id
                                        liquidityPoolOperationIDs)\<rparr>))
                in if PageQuery.Order page = ''asc''
                   then run (liquidity_pool_query @
                     [''AND holp.history_operation_id >= ? ORDER BY holp.history_operation_id asc LIMIT ?''])
                   else if PageQuery.Order page = ''desc''
                   then run (liquidity_pool_query @
                     [''AND holp.history_operation_id <= ? ORDER BY holp.history_operation_id desc LIMIT ?''])
                   else q\<lparr>Err := Some (Errorf (''invalid paging order: '' @
                                                  PageQuery.Order page))\<rparr>)))"

definition ForTransaction :: "toid \<Rightarrow> EffectsQ \<Rightarrow> string \<Rightarrow> EffectsQ" where
  "ForTransaction c q hash =
     (let (res, p) = TransactionByHash (parent q) hash;
          q1 = q\<lparr>Err := error_of res, parent := p\<rparr>
      in case res of
           Inl e \<Rightarrow> q1
         | Inr tx \<Rightarrow>
             (let start = Parse c (Transaction_ID tx);
                  end = start\<lparr>TransactionOrder := wrap32 (TransactionOrder start + 1)\<rparr>
              in q1\<lparr>sql := sq_Where (sql q1)
                     (SqlAnd (Ge heff_history_operation_id (ToInt64 c start))
                             (Lt heff_history_operation_id (ToInt64 c end)))\<rparr>))"

section \<open>Paging and execution\<close>

definition page_asc :: "int \<Rightarrow> int \<Rightarrow> cond" where
  "page_asc op idx =
     SqlAnd (Ge heff_history_operation_id op)
            (SqlOr (Gt heff_history_operation_id op)
                   (SqlAnd (Eq heff_history_operation_id op) (Gt heff_order idx)))"

definition page_desc :: "int \<Rightarrow> int \<Rightarrow> cond" where
  "page_desc op idx =
     SqlAnd (Le heff_history_operation_id op)
            (SqlOr (Lt heff_history_operation_id op)
                   (SqlAnd (Eq heff_history_operation_id op) (Lt heff_order idx)))"

definition Page :: "EffectsQ \<Rightarrow> PageQuery \<Rightarrow> EffectsQ" where
  "Page q page =
     (case Err q of
        Some e \<Rightarrow> q
      | None \<Rightarrow>
          (case CursorInt64Pair page DefaultPairSep of
             Inl err \<Rightarrow> q\<lparr>Err := Some err\<rparr>
           | Inr (op, idx0) \<Rightarrow>
               (let idx = (if idx0 > MaxInt32 then MaxInt32 else idx0);
                    q1 = (if PageQuery.Order page = ''asc''
                          then q\<lparr>sql := sq_OrderBy (sq_Where (sql q) (page_asc op idx))
                                   ''heff.history_operation_id asc, heff.order asc''\<rparr>
                          else if PageQuery.Order page = ''desc''
                          then q\<lparr>sql := sq_OrderBy (sq_Where (sql q) (page_desc op idx))
                                   ''heff.history_operation_id desc, heff.order desc''\<rparr>
                          else q)
                in q1\<lparr>sql := sq_Limit (sql q1) (Limit page)\<rparr>)))"

text \<open>
  \<^verbatim>\<open>Select\<close> returns the error, the destination (the rows loaded, or the destination as
  it was) and the builder.
\<close>

definition Select :: "EffectsQ \<Rightarrow> Effect list \<Rightarrow> error option \<times> Effect list \<times> EffectsQ" where
  "Select q dest =
     (case Err q of
        Some e \<Rightarrow> (Some e, dest, q)
      | None \<Rightarrow>
          (let (res, p) = Q_Select (parent q) (sql q);
               q1 = q\<lparr>Err := error_of res, parent := p\<rparr>
           in case res of
                Inl e \<Rightarrow> (Some e, dest, q1)
              | Inr rows \<Rightarrow> (None, rows, q1)))"

section \<open>Effect details\<close>

text \<open>
  The destinations of \<^verbatim>\<open>UnmarshalDetails\<close>: the three trustline sponsorship payloads of the
  package \<^verbatim>\<open>effects\<close>, of which this file reads \<^verbatim>\<open>Asset\<close> and writes \<^verbatim>\<open>Type\<close>, and every
  other destination. \<^verbatim>\<open>json.Unmarshal\<close> is a parameter: it returns its error and the
  destination as it left it. The three cases of the type switch have the same body, which
  is \<open>fill_type\<close> here.
\<close>

record sponsorship =
  Type :: string
  Asset :: string

datatype 'a dest =
    TrustlineSponsorshipCreated sponsorship
  | TrustlineSponsorshipUpdated sponsorship
  | TrustlineSponsorshipRemoved sponsorship
  | OtherDest 'a

definition getAssetTypeForCanonicalAsset :: "string \<Rightarrow> string" where
  "getAssetTypeForCanonicalAsset canonicalAsset =
     (if length canonicalAsset \<le> 61 then ''credit_alphanum4'' else ''credit_alphanum12'')"

definition fill_type :: "sponsorship \<Rightarrow> sponsorship" where
  "fill_type d = (if Type d = '''' then d\<lparr>Type := getAssetTypeForCanonicalAsset (Asset d)\<rparr> else d)"

definition UnmarshalDetails ::
  "(string \<Rightarrow> 'a dest \<Rightarrow> error option \<times> 'a dest) \<Rightarrow> Effect \<Rightarrow> 'a dest \<Rightarrow> error option \<times> 'a dest"
where
  "UnmarshalDetails json_Unmarshal r dest =
     (if \<not> Valid (DetailsString r) then (None, dest)
      else
        (let (e, dest1) = json_Unmarshal (String (DetailsString r)) dest;
             err = errors_Wrap e ''unmarshal effect details failed''
         in if err = None
            then (err,
                  case dest1 of
                    TrustlineSponsorshipCreated d \<Rightarrow> TrustlineSponsorshipCreated (fill_type d)
                  | TrustlineSponsorshipUpdated d \<Rightarrow> TrustlineSponsorshipUpdated (fill_type d)
                  | TrustlineSponsorshipRemoved d \<Rightarrow> TrustlineSponsorshipRemoved (fill_type d)
                  | OtherDest x \<Rightarrow> OtherDest x)
            else (err, dest1)))"

section \<open>Sample data\<close>

text \<open>
  A storage session with one account, one ledger and one transaction, and a composite key
  codec, for evaluating the definitions above on concrete inputs.
\<close>

definition sample_parent :: Q where
  "sample_parent =
     \<lparr>accountAnswer = (\<lambda>aid. if aid = ''GA7'' then Inr \<lparr>Account_ID = 7\<rparr>
                              else Inl (StorageError ''sql: no rows in result set'')),
      ledgerAnswer = (\<lambda>seq. if seq = 5 then Inr \<lparr>Ledger_Sequence = 5\<rparr>
                             else Inl (StorageError ''sql: no rows in result set'')),
      transactionAnswer = (\<lambda>hash. if hash = ''ab12'' then Inr \<lparr>Transaction_ID = 21474840576\<rparr>
                                   else Inl (StorageError ''sql: no rows in result set'')),
      rawAnswer = (\<lambda>query args. Inr [21474840577, 21474844673]),
      selectAnswer = (\<lambda>b. Inr []),
      issued = []\<rparr>"

text \<open>
  Modelled from the spec: an instance of the composite key codec, which the specification
  leaves opaque (it "supports increment-by-one on each sub-field"). The widths, 32 bits
  of ledger sequence, 20 of transaction order and 12 of operation order, are this
  instance's own.
\<close>

definition sample_toid :: toid where
  "sample_toid =
     \<lparr>Parse = (\<lambda>k. \<lparr>LedgerSequence = k div 4294967296,
                      TransactionOrder = (k div 4096) mod 1048576,
                      OperationOrder = k mod 4096\<rparr>),
      ToInt64 = (\<lambda>a. LedgerSequence a * 4294967296 + TransactionOrder a * 4096 +
                      OperationOrder a),
      IncOperationOrder = (\<lambda>a. a\<lparr>OperationOrder := OperationOrder a + 1\<rparr>)\<rparr>"


definition effect_at :: "int \<Rightarrow> int \<Rightarrow> Effect" where
  "effect_at opid ord =
     \<lparr>HistoryAccountID = 7, HistoryOperationID = opid, Effect.Order = ord,
      DetailsString = \<lparr>String = '''', Valid = False\<rparr>\<rparr>"

definition effect_with_details :: "string \<Rightarrow> Effect" where
  "effect_with_details s =
     \<lparr>HistoryAccountID = 7, HistoryOperationID = 21474840577, Effect.Order = 1,
      DetailsString = \<lparr>String = s, Valid = True\<rparr>\<rparr>"

text \<open>Two canonical assets, of 61 and of 69 characters.\<close>

definition sample_asset4 :: string where
  "sample_asset4 = ''USDC:GAAAAAAAAAAAAAAAAAAAAAAAAAAAAAAAAAAAAAAAAAAAAAAAAAAAAWHF''"

definition sample_asset12 :: string where
  "sample_asset12 = ''LONGASSET123:GAAAAAAAAAAAAAAAAAAAAAAAAAAAAAAAAAAAAAAAAAAAAAAAAAAAAWHF''"

text \<open>
  A builder that holds the error of a cursor that does not decode, and a page query with
  a direction that is neither "asc" nor "desc".
\<close>

definition latched :: EffectsQ where
  "latched = Page (Effects sample_parent) \<lparr>Cursor = ''bogus'', Order = ''asc'', Limit = 10\<rparr>"

definition sideways :: PageQuery where
  "sideways = \<lparr>Cursor = ''42-1'', Order = ''sideways'', Limit = 10\<rparr>"

section \<open>What a builder call adds to the selection\<close>

lemma selects_sq_Where: "selects (sq_Where b c) r = (selects b r \<and> holds c r)"
proof -
  have "all_hold (cs @ [c]) r = (all_hold cs r \<and> holds c r)" for cs
    by (induction cs) auto
  then show ?thesis by (simp add: selects_def sq_Where_def)
qed

lemma selects_sq_OrderBy: "selects (sq_OrderBy b s) r = selects b r"
  by (simp add: selects_def sq_OrderBy_def)

lemma selects_sq_Limit: "selects (sq_Limit b n) r = selects b r"
  by (simp add: selects_def sq_Limit_def)

lemma holds_page_asc:
  "holds (page_asc op idx) r = pair_less (op, idx) (HistoryOperationID r, Effect.Order r)"
  by (auto simp: page_asc_def pair_less_def)

lemma holds_page_desc:
  "holds (page_desc op idx) r = pair_less (HistoryOperationID r, Effect.Order r) (op, idx)"
  by (auto simp: page_desc_def pair_less_def)

lemma sample_cursor_wide:
  "CursorInt64Pair \<lparr>Cursor = ''5-2147483648'', Order = ''desc'', Limit = 10\<rparr> DefaultPairSep
     = Inr (5, 2147483648)"
  by (simp add: CursorInt64Pair_def DefaultPairSep_def parse_integer_def digit_value_def
      is_int64_def MaxInt64_def)

lemma sample_cursor_small:
  "CursorInt64Pair \<lparr>Cursor = ''5-3'', Order = ''asc'', Limit = 10\<rparr> DefaultPairSep = Inr (5, 3)"
  by (simp add: CursorInt64Pair_def DefaultPairSep_def parse_integer_def digit_value_def
      is_int64_def MaxInt64_def)

section \<open>Range filters\<close>

lemma ForOperation_sql:
  "ForOperation c q opid =
     q\<lparr>sql := sq_Where (sql q)
           (SqlAnd (Ge heff_history_operation_id (ToInt64 c (Parse c opid)))
                   (Lt heff_history_operation_id (ToInt64 c (IncOperationOrder c (Parse c opid)))))\<rparr>"
  by (simp add: ForOperation_def Let_def)

lemma ForTransaction_found:
  assumes "transactionAnswer (parent q) hash = Inr tx"
  shows "ForTransaction c q hash =
     q\<lparr>Err := None,
       parent := (parent q)\<lparr>issued := issued (parent q) @ [CallTransactionByHash hash]\<rparr>,
       sql := sq_Where (sql q)
           (SqlAnd (Ge heff_history_operation_id (ToInt64 c (Parse c (Transaction_ID tx))))
                   (Lt heff_history_operation_id
                      (ToInt64 c ((Parse c (Transaction_ID tx))
                         \<lparr>TransactionOrder :=
                            wrap32 (TransactionOrder (Parse c (Transaction_ID tx)) + 1)\<rparr>))))\<rparr>"
  using assms
  by (simp add: ForTransaction_def TransactionByHash_def error_of_def Let_def)


lemma WhereParts_sq_Where: "WhereParts (sq_Where b c) = WhereParts b @ [c]"
  by (simp add: sq_Where_def)






subsection \<open>The sample codec meets the contract\<close>

lemma sample_parse_op:
  "Parse sample_toid 21474840577 =
     \<lparr>LedgerSequence = 5, TransactionOrder = 1, OperationOrder = 1\<rparr>"
  by (simp add: sample_toid_def)

lemma sample_parse_tx:
  "Parse sample_toid 21474840576 =
     \<lparr>LedgerSequence = 5, TransactionOrder = 1, OperationOrder = 0\<rparr>"
  by (simp add: sample_toid_def)

lemma sample_ToInt64:
  "ToInt64 sample_toid \<lparr>LedgerSequence = l, TransactionOrder = t, OperationOrder = o'\<rparr> =
     l * 4294967296 + t * 4096 + o'"
  by (simp add: sample_toid_def)

lemma sample_Inc:
  "IncOperationOrder sample_toid \<lparr>LedgerSequence = l, TransactionOrder = t, OperationOrder = o'\<rparr> =
     \<lparr>LedgerSequence = l, TransactionOrder = t, OperationOrder = o' + 1\<rparr>"
  by (simp add: sample_toid_def)






text \<open>
  C7. For an operation id that the codec round-trips, \<^verbatim>\<open>ForOperation\<close> adds one predicate,
  satisfied by exactly the rows whose \<^verbatim>\<open>history_operation_id\<close> lies in the half-open range
  from the id to the key of the id with its operation order incremented; when that key
  is the id plus one, these are the rows of the single operation. For a transaction hash
  that resolves to a transaction whose id \<open>t\<close> the codec round-trips, \<^verbatim>\<open>ForTransaction\<close>
  sets no error and adds one predicate, satisfied by exactly the rows whose
  \<^verbatim>\<open>history_operation_id\<close> lies in the half-open range from \<open>t\<close> to the key of \<open>t\<close> with its
  transaction order incremented.
\<close>

theorem ForOperation_ForTransaction_range:
  "(ToInt64 c (Parse c opid) = opid \<longrightarrow>
      Err (ForOperation c q opid) = Err q \<and>
      WhereParts (sql (ForOperation c q opid)) =
        WhereParts (sql q) @
          [SqlAnd (Ge heff_history_operation_id opid)
                  (Lt heff_history_operation_id (ToInt64 c (IncOperationOrder c (Parse c opid))))] \<and>
      (\<forall>r. selects (sql (ForOperation c q opid)) r =
            (selects (sql q) r \<and> opid \<le> HistoryOperationID r \<and>
             HistoryOperationID r < ToInt64 c (IncOperationOrder c (Parse c opid)))) \<and>
      (ToInt64 c (IncOperationOrder c (Parse c opid)) = opid + 1 \<longrightarrow>
         (\<forall>r. selects (sql (ForOperation c q opid)) r =
               (selects (sql q) r \<and> HistoryOperationID r = opid)))) \<and>
   (transactionAnswer (parent q) hash = Inr tx \<and>
    ToInt64 c (Parse c (Transaction_ID tx)) = Transaction_ID tx \<longrightarrow>
      Err (ForTransaction c q hash) = None \<and>
      WhereParts (sql (ForTransaction c q hash)) =
        WhereParts (sql q) @
          [SqlAnd (Ge heff_history_operation_id (Transaction_ID tx))
                  (Lt heff_history_operation_id
                     (ToInt64 c ((Parse c (Transaction_ID tx))
                        \<lparr>TransactionOrder :=
                           wrap32 (TransactionOrder (Parse c (Transaction_ID tx)) + 1)\<rparr>)))] \<and>
      (\<forall>r. selects (sql (ForTransaction c q hash)) r =
            (selects (sql q) r \<and> Transaction_ID tx \<le> HistoryOperationID r \<and>
             HistoryOperationID r <
               ToInt64 c ((Parse c (Transaction_ID tx))
                 \<lparr>TransactionOrder :=
                    wrap32 (TransactionOrder (Parse c (Transaction_ID tx)) + 1)\<rparr>))))"
proof (intro conjI impI)
  assume rt: "ToInt64 c (Parse c opid) = opid"
  show "Err (ForOperation c q opid) = Err q"
    by (simp add: ForOperation_sql)
  show "WhereParts (sql (ForOperation c q opid)) =
        WhereParts (sql q) @
          [SqlAnd (Ge heff_history_operation_id opid)
                  (Lt heff_history_operation_id (ToInt64 c (IncOperationOrder c (Parse c opid))))]"
    by (simp add: ForOperation_sql WhereParts_sq_Where rt)
  show sel: "\<forall>r. selects (sql (ForOperation c q opid)) r =
            (selects (sql q) r \<and> opid \<le> HistoryOperationID r \<and>
             HistoryOperationID r < ToInt64 c (IncOperationOrder c (Parse c opid)))"
    by (simp add: ForOperation_sql selects_sq_Where rt)
  assume "ToInt64 c (IncOperationOrder c (Parse c opid)) = opid + 1"
  with sel show "\<forall>r. selects (sql (ForOperation c q opid)) r =
               (selects (sql q) r \<and> HistoryOperationID r = opid)"
    by auto
next
  assume h: "transactionAnswer (parent q) hash = Inr tx \<and>
    ToInt64 c (Parse c (Transaction_ID tx)) = Transaction_ID tx"
  then have f: "transactionAnswer (parent q) hash = Inr tx"
    and rt: "ToInt64 c (Parse c (Transaction_ID tx)) = Transaction_ID tx"
    by simp_all
  show "Err (ForTransaction c q hash) = None"
    by (simp add: ForTransaction_found [OF f])
  show "WhereParts (sql (ForTransaction c q hash)) =
        WhereParts (sql q) @
          [SqlAnd (Ge heff_history_operation_id (Transaction_ID tx))
                  (Lt heff_history_operation_id
                     (ToInt64 c ((Parse c (Transaction_ID tx))
                        \<lparr>TransactionOrder :=
                           wrap32 (TransactionOrder (Parse c (Transaction_ID tx)) + 1)\<rparr>)))]"
    by (simp add: ForTransaction_found [OF f] WhereParts_sq_Where rt)
  show "\<forall>r. selects (sql (ForTransaction c q hash)) r =
            (selects (sql q) r \<and> Transaction_ID tx \<le> HistoryOperationID r \<and>
             HistoryOperationID r <
               ToInt64 c ((Parse c (Transaction_ID tx))
                 \<lparr>TransactionOrder :=
                    wrap32 (TransactionOrder (Parse c (Transaction_ID tx)) + 1)\<rparr>))"
    by (simp add: ForTransaction_found [OF f] selects_sq_Where rt)
qed

text \<open>
  The theorem on the sample session and codec: the operation (5, 1, 1) and the
  transaction (5, 1), found by its hash.
\<close>

theorem ForOperation_ForTransaction_range_witness:
  "selects (sql (ForOperation sample_toid (Effects sample_parent) 21474840577))
     (effect_at 21474840577 1) \<and>
   \<not> selects (sql (ForOperation sample_toid (Effects sample_parent) 21474840577))
     (effect_at 21474840578 1) \<and>
   selects (sql (ForTransaction sample_toid (Effects sample_parent) ''ab12''))
     (effect_at 21474840577 1) \<and>
   \<not> selects (sql (ForTransaction sample_toid (Effects sample_parent) ''ab12''))
     (effect_at 21474844672 1)"
  using ForOperation_ForTransaction_range [of sample_toid 21474840577 "Effects sample_parent"
      "''ab12''" "\<lparr>Transaction_ID = 21474840576\<rparr>"]
  by (simp add: sample_parse_op sample_parse_tx sample_ToInt64 sample_Inc wrap32_def
      Effects_def sample_parent_def selects_def selectEffect_def effect_at_def)

section \<open>Keyset pagination\<close>

text \<open>
  C3, as the code has it. When the builder holds no error and the cursor decodes to
  \<open>(major, minor)\<close>, \<^verbatim>\<open>Page\<close> with direction "asc" adds one predicate, whose first conjunct
  is \<^verbatim>\<open>history_operation_id >= major\<close>, and the ordering
  \<^verbatim>\<open>heff.history_operation_id asc, heff.order asc\<close>; the rows that satisfy the predicate are
  exactly those whose pair (history_operation_id, order) is strictly greater, in the
  lexicographic order, than (major, min minor (2^31 - 1)). With "desc" the first conjunct
  is \<^verbatim>\<open>history_operation_id <= major\<close>, the ordering is descending, and the rows are those
  strictly less than (major, min minor (2^31 - 1)). The minor value compared is the
  clamped one: for a minor value of at most 2^31 - 1 it is the cursor's own.
\<close>

theorem Page_keyset:
  assumes "Err q = None"
    and "CursorInt64Pair page DefaultPairSep = Inr (major, minor)"
  shows "(PageQuery.Order page = ''asc'' \<longrightarrow>
            WhereParts (sql (Page q page)) =
              WhereParts (sql q) @
                [SqlAnd (Ge heff_history_operation_id major)
                   (SqlOr (Gt heff_history_operation_id major)
                      (SqlAnd (Eq heff_history_operation_id major)
                         (Gt heff_order (min minor MaxInt32))))] \<and>
            OrderByParts (sql (Page q page)) =
              OrderByParts (sql q) @ [''heff.history_operation_id asc, heff.order asc''] \<and>
            (\<forall>r. selects (sql (Page q page)) r =
                  (selects (sql q) r \<and>
                   pair_less (major, min minor MaxInt32)
                     (HistoryOperationID r, Effect.Order r)))) \<and>
         (PageQuery.Order page = ''desc'' \<longrightarrow>
            WhereParts (sql (Page q page)) =
              WhereParts (sql q) @
                [SqlAnd (Le heff_history_operation_id major)
                   (SqlOr (Lt heff_history_operation_id major)
                      (SqlAnd (Eq heff_history_operation_id major)
                         (Lt heff_order (min minor MaxInt32))))] \<and>
            OrderByParts (sql (Page q page)) =
              OrderByParts (sql q) @ [''heff.history_operation_id desc, heff.order desc''] \<and>
            (\<forall>r. selects (sql (Page q page)) r =
                  (selects (sql q) r \<and>
                   pair_less (HistoryOperationID r, Effect.Order r)
                     (major, min minor MaxInt32))))"
proof -
  have clamp: "(if minor > MaxInt32 then MaxInt32 else minor) = min minor MaxInt32"
    by (simp add: min_def)
  show ?thesis
    using assms
    by (simp add: Page_def Let_def clamp selects_sq_Where selects_sq_OrderBy selects_sq_Limit
        holds_page_asc holds_page_desc)
      (simp add: sq_Where_def sq_OrderBy_def sq_Limit_def page_asc_def page_desc_def)
qed

text \<open>
  The theorem at the cursor \<^verbatim>\<open>5-2147483648\<close>, descending: the row (5, 2147483646) is
  selected and the row (5, 2147483647) is not.
\<close>

theorem Page_keyset_witness:
  "selects (sql (Page (Effects sample_parent)
                  \<lparr>Cursor = ''5-2147483648'', Order = ''desc'', Limit = 10\<rparr>))
        (effect_at 5 2147483646) \<and>
   \<not> selects (sql (Page (Effects sample_parent)
                  \<lparr>Cursor = ''5-2147483648'', Order = ''desc'', Limit = 10\<rparr>))
        (effect_at 5 2147483647)"
  using Page_keyset [of "Effects sample_parent"
      "\<lparr>Cursor = ''5-2147483648'', Order = ''desc'', Limit = 10\<rparr>" 5 2147483648]
    sample_cursor_wide
  by (simp add: Effects_def selects_def selectEffect_def pair_less_def effect_at_def MaxInt32_def)

text \<open>
  C3 as stated compares with the cursor's own pair. The cursor \<^verbatim>\<open>5-2147483648\<close> decodes to
  (5, 2147483648); the row (5, 2147483647) is strictly less than it, and the descending
  page does not select that row.
\<close>

theorem Page_desc_wide_cursor_counterexample:
  "CursorInt64Pair \<lparr>Cursor = ''5-2147483648'', Order = ''desc'', Limit = 10\<rparr> DefaultPairSep
     = Inr (5, 2147483648) \<and>
   pair_less (HistoryOperationID (effect_at 5 2147483647), Effect.Order (effect_at 5 2147483647))
     (5, 2147483648) \<and>
   \<not> selects (sql (Page (Effects sample_parent)
                  \<lparr>Cursor = ''5-2147483648'', Order = ''desc'', Limit = 10\<rparr>))
        (effect_at 5 2147483647)"
  by (simp add: sample_cursor_wide Page_def Effects_def Let_def MaxInt32_def selects_sq_Where
      selects_sq_OrderBy selects_sq_Limit holds_page_desc pair_less_def effect_at_def)

text \<open>
  C8. When the builder holds no error and the cursor decodes to \<open>(major, minor)\<close>, \<^verbatim>\<open>Page\<close>
  sets no error, and the minor value in the predicate it adds is 2147483647 when
  \<open>minor\<close> exceeds 2147483647 and \<open>minor\<close> itself otherwise.
\<close>

theorem Page_clamps_minor:
  assumes "Err q = None"
    and "CursorInt64Pair page DefaultPairSep = Inr (major, minor)"
  shows "Err (Page q page) = None \<and>
         (PageQuery.Order page = ''asc'' \<longrightarrow>
            WhereParts (sql (Page q page)) =
              WhereParts (sql q) @
                [page_asc major (if 2147483647 < minor then 2147483647 else minor)]) \<and>
         (PageQuery.Order page = ''desc'' \<longrightarrow>
            WhereParts (sql (Page q page)) =
              WhereParts (sql q) @
                [page_desc major (if 2147483647 < minor then 2147483647 else minor)])"
  using assms
  by (simp add: Page_def Let_def MaxInt32_def sq_Where_def sq_OrderBy_def sq_Limit_def)

text \<open>
  The theorem at the cursor \<^verbatim>\<open>5-2147483648\<close>, whose minor value is clamped, and at the
  cursor \<^verbatim>\<open>5-3\<close>, whose minor value is kept.
\<close>

theorem Page_clamps_minor_witness:
  "Err (Page (Effects sample_parent)
          \<lparr>Cursor = ''5-2147483648'', Order = ''desc'', Limit = 10\<rparr>) = None \<and>
   WhereParts (sql (Page (Effects sample_parent)
          \<lparr>Cursor = ''5-2147483648'', Order = ''desc'', Limit = 10\<rparr>)) =
     [page_desc 5 2147483647] \<and>
   WhereParts (sql (Page (Effects sample_parent)
          \<lparr>Cursor = ''5-3'', Order = ''asc'', Limit = 10\<rparr>)) = [page_asc 5 3]"
  using Page_clamps_minor [of "Effects sample_parent"
      "\<lparr>Cursor = ''5-2147483648'', Order = ''desc'', Limit = 10\<rparr>" 5 2147483648]
    Page_clamps_minor [of "Effects sample_parent"
      "\<lparr>Cursor = ''5-3'', Order = ''asc'', Limit = 10\<rparr>" 5 3]
    sample_cursor_wide sample_cursor_small
  by (simp add: Effects_def selectEffect_def)

section \<open>The liquidity pool filter\<close>

text \<open>
  C9. When the builder holds no error and the cursor of \<open>page\<close> decodes to
  \<open>(major, minor)\<close>, \<^verbatim>\<open>ForLiquidityPool\<close> issues one raw query for the operation ids of the
  pool, with the arguments pool id, \<open>major\<close> and the limit of \<open>page\<close>: ascending it asks
  for \<^verbatim>\<open>history_operation_id >= major\<close> in ascending order, descending for
  \<^verbatim>\<open>history_operation_id <= major\<close> in descending order. When the query answers with the
  ids \<open>ids\<close>, the builder holds no error and selects exactly the rows it selected before
  whose \<^verbatim>\<open>history_operation_id\<close> is among \<open>ids\<close>.
\<close>

theorem ForLiquidityPool_lookup:
  assumes "Err q = None"
    and "CursorInt64Pair page DefaultPairSep = Inr (major, minor)"
  shows "(PageQuery.Order page = ''asc'' \<longrightarrow>
            issued (parent (ForLiquidityPool q page pool)) =
              issued (parent q) @
                [CallSelectRaw
                   (liquidity_pool_query @
                      [''AND holp.history_operation_id >= ? ORDER BY holp.history_operation_id asc LIMIT ?''])
                   [ArgString pool, ArgInt64 major, ArgUint64 (Limit page)]] \<and>
            (\<forall>ids. rawAnswer (parent q)
                     (liquidity_pool_query @
                        [''AND holp.history_operation_id >= ? ORDER BY holp.history_operation_id asc LIMIT ?''])
                     [ArgString pool, ArgInt64 major, ArgUint64 (Limit page)] = Inr ids \<longrightarrow>
                   Err (ForLiquidityPool q page pool) = None \<and>
                   WhereParts (sql (ForLiquidityPool q page pool)) =
                     WhereParts (sql q) @ [SqlIn heff_history_operation_id ids] \<and>
                   (\<forall>r. selects (sql (ForLiquidityPool q page pool)) r =
                         (selects (sql q) r \<and> HistoryOperationID r \<in> set ids)))) \<and>
         (PageQuery.Order page = ''desc'' \<longrightarrow>
            issued (parent (ForLiquidityPool q page pool)) =
              issued (parent q) @
                [CallSelectRaw
                   (liquidity_pool_query @
                      [''AND holp.history_operation_id <= ? ORDER BY holp.history_operation_id desc LIMIT ?''])
                   [ArgString pool, ArgInt64 major, ArgUint64 (Limit page)]] \<and>
            (\<forall>ids. rawAnswer (parent q)
                     (liquidity_pool_query @
                        [''AND holp.history_operation_id <= ? ORDER BY holp.history_operation_id desc LIMIT ?''])
                     [ArgString pool, ArgInt64 major, ArgUint64 (Limit page)] = Inr ids \<longrightarrow>
                   Err (ForLiquidityPool q page pool) = None \<and>
                   WhereParts (sql (ForLiquidityPool q page pool)) =
                     WhereParts (sql q) @ [SqlIn heff_history_operation_id ids] \<and>
                   (\<forall>r. selects (sql (ForLiquidityPool q page pool)) r =
                         (selects (sql q) r \<and> HistoryOperationID r \<in> set ids))))"
proof -
  let ?asc = "liquidity_pool_query @
    [''AND holp.history_operation_id >= ? ORDER BY holp.history_operation_id asc LIMIT ?'']"
  let ?desc = "liquidity_pool_query @
    [''AND holp.history_operation_id <= ? ORDER BY holp.history_operation_id desc LIMIT ?'']"
  let ?args = "[ArgString pool, ArgInt64 major, ArgUint64 (Limit page)]"
  have run: "issued (parent (ForLiquidityPool q page pool)) =
        issued (parent q) @ [CallSelectRaw query ?args] \<and>
      (\<forall>ids. rawAnswer (parent q) query ?args = Inr ids \<longrightarrow>
         Err (ForLiquidityPool q page pool) = None \<and>
         WhereParts (sql (ForLiquidityPool q page pool)) =
           WhereParts (sql q) @ [SqlIn heff_history_operation_id ids] \<and>
         (\<forall>r. selects (sql (ForLiquidityPool q page pool)) r =
               (selects (sql q) r \<and> HistoryOperationID r \<in> set ids)))"
    if "PageQuery.Order page = ''asc'' \<and> query = ?asc \<or>
        PageQuery.Order page = ''desc'' \<and> query = ?desc" for query
  proof (cases "rawAnswer (parent q) query ?args")
    case (Inl err)
    with assms that show ?thesis
      by (auto simp: ForLiquidityPool_def SelectRaw_def Let_def)
  next
    case (Inr ids)
    with assms that show ?thesis
      by (auto simp: ForLiquidityPool_def SelectRaw_def Let_def selects_sq_Where)
        (simp_all add: sq_Where_def)
  qed
  show ?thesis
    using run [of ?asc] run [of ?desc] by simp
qed

text \<open>
  The theorem at the cursor \<^verbatim>\<open>5-3\<close>, ascending, with the limit 10, on the sample session,
  whose raw query answers with two operation ids.
\<close>

theorem ForLiquidityPool_lookup_witness:
  "issued (parent (ForLiquidityPool (Effects sample_parent)
       \<lparr>Cursor = ''5-3'', Order = ''asc'', Limit = 10\<rparr> ''pool'')) =
     [CallSelectRaw
        (liquidity_pool_query @
           [''AND holp.history_operation_id >= ? ORDER BY holp.history_operation_id asc LIMIT ?''])
        [ArgString ''pool'', ArgInt64 5, ArgUint64 10]] \<and>
   selects (sql (ForLiquidityPool (Effects sample_parent)
       \<lparr>Cursor = ''5-3'', Order = ''asc'', Limit = 10\<rparr> ''pool'')) (effect_at 21474840577 1) \<and>
   \<not> selects (sql (ForLiquidityPool (Effects sample_parent)
       \<lparr>Cursor = ''5-3'', Order = ''asc'', Limit = 10\<rparr> ''pool'')) (effect_at 21474840578 1)"
  using ForLiquidityPool_lookup [of "Effects sample_parent"
      "\<lparr>Cursor = ''5-3'', Order = ''asc'', Limit = 10\<rparr>" 5 3 "''pool''"]
    sample_cursor_small
  by (simp add: Effects_def sample_parent_def selects_def selectEffect_def effect_at_def)

section \<open>The first error\<close>

text \<open>
  \<^verbatim>\<open>Page\<close>, \<^verbatim>\<open>ForLiquidityPool\<close> and \<^verbatim>\<open>Select\<close> begin by testing \<^verbatim>\<open>q.Err\<close>: on a builder that
  holds an error they change nothing and make no storage call. \<^verbatim>\<open>ForOperation\<close> keeps the
  error.
\<close>

lemma latch_Page: "Err q = Some e \<Longrightarrow> Page q page = q"
  by (simp add: Page_def)

lemma latch_ForLiquidityPool: "Err q = Some e \<Longrightarrow> ForLiquidityPool q page pool = q"
  by (simp add: ForLiquidityPool_def)

lemma latch_Select: "Err q = Some e \<Longrightarrow> Select q dest = (Some e, dest, q)"
  by (simp add: Select_def)

lemma latch_ForOperation: "Err (ForOperation c q opid) = Err q"
  by (simp add: ForOperation_def Let_def)

lemma ForLiquidityPool_invalid_order:
  assumes "Err q = None" and "CursorInt64Pair page DefaultPairSep = Inr (major, minor)"
    and "PageQuery.Order page \<noteq> ''asc''" and "PageQuery.Order page \<noteq> ''desc''"
  shows "ForLiquidityPool q page pool =
           q\<lparr>Err := Some (Errorf (''invalid paging order: '' @ PageQuery.Order page))\<rparr>"
  using assms by (simp add: ForLiquidityPool_def Let_def)

lemma latched_eq:
  "latched = \<lparr>Err = Some MalformedCursor, parent = sample_parent, sql = selectEffect\<rparr>"
  by (simp add: latched_def Page_def Effects_def CursorInt64Pair_def DefaultPairSep_def
      parse_integer_def digit_value_def)

text \<open>
  C1 on the code. \<^verbatim>\<open>ForAccount\<close>, \<^verbatim>\<open>ForLedger\<close> and \<^verbatim>\<open>ForTransaction\<close> do not test \<^verbatim>\<open>q.Err\<close>:
  they make their lookup and assign its result to \<^verbatim>\<open>q.Err\<close>. On the builder \<open>latched\<close>,
  which holds the error of the cursor \<^verbatim>\<open>bogus\<close>, a lookup that succeeds clears the error
  and adds its predicate, and \<^verbatim>\<open>Select\<close> then runs the query; a lookup that fails replaces
  the error by its own. \<^verbatim>\<open>ForOperation\<close> keeps the error and still adds its predicate.
\<close>

theorem latched_error_overwritten:
  "Err latched = Some MalformedCursor \<and>
   Err (ForAccount latched ''GA7'') = None \<and>
   issued (parent (ForAccount latched ''GA7'')) = [CallAccountByAddress ''GA7''] \<and>
   WhereParts (sql (ForAccount latched ''GA7'')) = [Eq heff_history_account_id 7] \<and>
   fst (Select (ForAccount latched ''GA7'') []) = None \<and>
   issued (parent (snd (snd (Select (ForAccount latched ''GA7'') [])))) =
     [CallAccountByAddress ''GA7'', CallSelect (sql (ForAccount latched ''GA7''))] \<and>
   Err (ForAccount latched ''GB8'') = Some (StorageError ''sql: no rows in result set'') \<and>
   Err (ForLedger sample_toid latched 5) = None \<and>
   issued (parent (ForLedger sample_toid latched 5)) = [CallLedgerBySequence 5] \<and>
   Err (ForTransaction sample_toid latched ''ab12'') = None \<and>
   issued (parent (ForTransaction sample_toid latched ''ab12'')) = [CallTransactionByHash ''ab12''] \<and>
   Err (ForOperation sample_toid latched 21474840577) = Some MalformedCursor \<and>
   WhereParts (sql (ForOperation sample_toid latched 21474840577)) =
     [SqlAnd (Ge heff_history_operation_id 21474840577)
             (Lt heff_history_operation_id 21474840578)]"
  by (simp add: latched_eq ForAccount_def AccountByAddress_def ForLedger_def LedgerBySequence_def
      ForTransaction_def TransactionByHash_def ForOperation_def Select_def Q_Select_def
      error_of_def Let_def sample_parent_def sq_Where_def selectEffect_def sample_toid_def)

lemma Page_other_order:
  assumes "Err q = None" and "CursorInt64Pair page DefaultPairSep = Inr (major, minor)"
    and "PageQuery.Order page \<noteq> ''asc''" and "PageQuery.Order page \<noteq> ''desc''"
  shows "Page q page = q\<lparr>sql := sq_Limit (sql q) (Limit page)\<rparr>"
  using assms by (simp add: Page_def Let_def)

lemma sideways_cursor: "CursorInt64Pair sideways DefaultPairSep = Inr (42, 1)"
  by (simp add: sideways_def CursorInt64Pair_def DefaultPairSep_def parse_integer_def
      digit_value_def is_int64_def MaxInt64_def)

text \<open>
  C2 on the code. The switch of \<^verbatim>\<open>Page\<close> has no default case: with a cursor that decodes
  and the direction "sideways" it sets no error and adds the limit only, and \<^verbatim>\<open>Select\<close>
  runs the query. \<^verbatim>\<open>ForLiquidityPool\<close> has the default case: on the same page query it
  sets the error "invalid paging order: sideways" and makes no storage call.
\<close>

theorem Page_sideways_runs_query:
  "Err (Page (Effects sample_parent) sideways) = None \<and>
   sql (Page (Effects sample_parent) sideways) = sq_Limit selectEffect 10 \<and>
   fst (Select (Page (Effects sample_parent) sideways) []) = None \<and>
   issued (parent (snd (snd (Select (Page (Effects sample_parent) sideways) [])))) =
     [CallSelect (sq_Limit selectEffect 10)] \<and>
   Err (ForLiquidityPool (Effects sample_parent) sideways ''pool'') =
     Some (Errorf ''invalid paging order: sideways'') \<and>
   issued (parent (ForLiquidityPool (Effects sample_parent) sideways ''pool'')) = []"
  by (simp add: Page_def ForLiquidityPool_def sideways_cursor Effects_def Let_def Select_def
      Q_Select_def error_of_def MaxInt32_def)
    (simp add: sideways_def sample_parent_def)

section \<open>Backfilling the asset type\<close>

text \<open>
  C10. When the details are valid and \<^verbatim>\<open>json.Unmarshal\<close> succeeds, leaving the destination
  \<open>dest1\<close>, \<^verbatim>\<open>UnmarshalDetails\<close> returns no error. If \<open>dest1\<close> is one of the three
  trustline sponsorship payloads, the destination returned is of the same kind with the
  same asset, and its type is the type of \<open>dest1\<close> when that is not empty, and otherwise
  \<^verbatim>\<open>credit_alphanum4\<close> for an asset of at most 61 characters and \<^verbatim>\<open>credit_alphanum12\<close> for a
  longer one; a payload whose type is not empty is returned as it is, and so is every
  destination of another kind.
\<close>

theorem UnmarshalDetails_backfill:
  assumes "Valid (DetailsString r)"
    and "json_Unmarshal (String (DetailsString r)) dest = (None, dest1)"
  shows "fst (UnmarshalDetails json_Unmarshal r dest) = None \<and>
         (\<forall>d. dest1 = TrustlineSponsorshipCreated d \<longrightarrow>
            (\<exists>d'. snd (UnmarshalDetails json_Unmarshal r dest) = TrustlineSponsorshipCreated d' \<and>
                  Asset d' = Asset d \<and>
                  Type d' =
                    (if Type d \<noteq> [] then Type d
                     else if length (Asset d) \<le> 61 then ''credit_alphanum4''
                     else ''credit_alphanum12'')) \<and>
            (Type d \<noteq> [] \<longrightarrow> snd (UnmarshalDetails json_Unmarshal r dest) = dest1)) \<and>
         (\<forall>d. dest1 = TrustlineSponsorshipUpdated d \<longrightarrow>
            (\<exists>d'. snd (UnmarshalDetails json_Unmarshal r dest) = TrustlineSponsorshipUpdated d' \<and>
                  Asset d' = Asset d \<and>
                  Type d' =
                    (if Type d \<noteq> [] then Type d
                     else if length (Asset d) \<le> 61 then ''credit_alphanum4''
                     else ''credit_alphanum12'')) \<and>
            (Type d \<noteq> [] \<longrightarrow> snd (UnmarshalDetails json_Unmarshal r dest) = dest1)) \<and>
         (\<forall>d. dest1 = TrustlineSponsorshipRemoved d \<longrightarrow>
            (\<exists>d'. snd (UnmarshalDetails json_Unmarshal r dest) = TrustlineSponsorshipRemoved d' \<and>
                  Asset d' = Asset d \<and>
                  Type d' =
                    (if Type d \<noteq> [] then Type d
                     else if length (Asset d) \<le> 61 then ''credit_alphanum4''
                     else ''credit_alphanum12'')) \<and>
            (Type d \<noteq> [] \<longrightarrow> snd (UnmarshalDetails json_Unmarshal r dest) = dest1)) \<and>
         (\<forall>x. dest1 = OtherDest x \<longrightarrow> snd (UnmarshalDetails json_Unmarshal r dest) = dest1)"
  using assms
  by (auto simp: UnmarshalDetails_def errors_Wrap_def fill_type_def
      getAssetTypeForCanonicalAsset_def)

text \<open>
  The theorem at an update payload with an empty type and an asset of 69 characters, at
  one with an asset of 61 characters, and at one whose type is already set.
\<close>

theorem UnmarshalDetails_backfill_witness:
  "snd (UnmarshalDetails
          (\<lambda>s d. (None, TrustlineSponsorshipUpdated \<lparr>Type = [], Asset = sample_asset12\<rparr>))
          (effect_with_details ''{}'') (OtherDest ())) =
     TrustlineSponsorshipUpdated \<lparr>Type = ''credit_alphanum12'', Asset = sample_asset12\<rparr> \<and>
   snd (UnmarshalDetails
          (\<lambda>s d. (None, TrustlineSponsorshipUpdated \<lparr>Type = [], Asset = sample_asset4\<rparr>))
          (effect_with_details ''{}'') (OtherDest ())) =
     TrustlineSponsorshipUpdated \<lparr>Type = ''credit_alphanum4'', Asset = sample_asset4\<rparr> \<and>
   snd (UnmarshalDetails
          (\<lambda>s d. (None, TrustlineSponsorshipUpdated \<lparr>Type = ''native'', Asset = sample_asset4\<rparr>))
          (effect_with_details ''{}'') (OtherDest ())) =
     TrustlineSponsorshipUpdated \<lparr>Type = ''native'', Asset = sample_asset4\<rparr>"
  using UnmarshalDetails_backfill [of "effect_with_details ''{}''"
      "\<lambda>s d. (None, TrustlineSponsorshipUpdated \<lparr>Type = [], Asset = sample_asset12\<rparr>)"
      "OtherDest ()" "TrustlineSponsorshipUpdated \<lparr>Type = [], Asset = sample_asset12\<rparr>"]
    UnmarshalDetails_backfill [of "effect_with_details ''{}''"
      "\<lambda>s d. (None, TrustlineSponsorshipUpdated \<lparr>Type = [], Asset = sample_asset4\<rparr>)"
      "OtherDest ()" "TrustlineSponsorshipUpdated \<lparr>Type = [], Asset = sample_asset4\<rparr>"]
    UnmarshalDetails_backfill [of "effect_with_details ''{}''"
      "\<lambda>s d. (None, TrustlineSponsorshipUpdated \<lparr>Type = ''native'', Asset = sample_asset4\<rparr>)"
      "OtherDest ()" "TrustlineSponsorshipUpdated \<lparr>Type = ''native'', Asset = sample_asset4\<rparr>"]
  by (auto simp: effect_with_details_def sample_asset4_def sample_asset12_def)

section \<open>Decimal strings\<close>

lemma digit_cases:
  "d < 10 \<Longrightarrow> d = 0 \<or> d = 1 \<or> d = 2 \<or> d = 3 \<or> d = 4 \<or> d = 5 \<or> d = 6 \<or> d = 7 \<or> d = 8 \<or> d = (9::nat)"
  by arith

lemma of_char_digit_char: "d < 10 \<Longrightarrow> (of_char (digit_char d) :: nat) = 48 + d"
  by (drule digit_cases) (elim disjE, simp_all add: digit_char_def)

lemma digit_value_digit_char: "d < 10 \<Longrightarrow> digit_value (digit_char d) = Some d"
  by (simp add: digit_value_def of_char_digit_char)

lemma all_digits_append: "all_digits (s @ t) = (all_digits s \<and> all_digits t)"
  by (induction s) auto

lemma all_digits_digits: "all_digits (digits n)"
proof (induction n rule: digits.induct)
  case (1 n)
  show ?case
  proof (cases "n < 10")
    case True
    then show ?thesis
      by (subst digits.simps) (simp add: of_char_digit_char)
  next
    case False
    have "n mod 10 < 10" by simp
    then have "all_digits [digit_char (n mod 10)]"
      by (simp add: of_char_digit_char)
    with False 1 show ?thesis
      by (subst digits.simps) (simp add: all_digits_append)
  qed
qed

lemma digits_not_Nil: "digits n \<noteq> []"
  by (subst digits.simps) simp

lemma parse_digits_snoc:
  "d < 10 \<Longrightarrow> parse_digits acc (s @ [digit_char d]) =
     map_option (\<lambda>v. 10 * v + d) (parse_digits acc s)"
  by (induction s arbitrary: acc) (simp_all add: digit_value_digit_char split: option.splits)

lemma parse_digits_digits: "parse_digits 0 (digits n) = Some n"
proof (induction n rule: digits.induct)
  case (1 n)
  show ?case
  proof (cases "n < 10")
    case True
    then show ?thesis
      by (subst digits.simps) (simp add: digit_value_digit_char)
  next
    case False
    have "n mod 10 < 10" by simp
    then have "parse_digits 0 (digits (n div 10) @ [digit_char (n mod 10)]) =
        Some (10 * (n div 10) + n mod 10)"
      using 1 False by (simp add: parse_digits_snoc)
    with False show ?thesis
      by (subst digits.simps) simp
  qed
qed

lemma sep_not_in_digits: "all_digits s \<Longrightarrow> CHR ''-'' \<notin> set s"
  by (induction s) auto

lemma parse_integer_digits: "parse_integer (digits n) = Some (int n)"
proof (cases "digits n")
  case Nil
  then show ?thesis by (simp add: digits_not_Nil)
next
  case (Cons c cs)
  have "c \<noteq> CHR ''-''"
    using sep_not_in_digits [OF all_digits_digits, of n] Cons by auto
  then show ?thesis
    using parse_digits_digits [of n] by (simp add: parse_integer_def Cons)
qed

lemma split_on_none: "sep \<notin> set a \<Longrightarrow> split_on sep a = [a]"
  by (induction a) auto

lemma split_on_once:
  "sep \<notin> set a \<Longrightarrow> sep \<notin> set b \<Longrightarrow> split_on sep (a @ sep # b) = [a, b]"
  by (induction a) (auto simp: split_on_none)

section \<open>The paging token\<close>

lemma PagingToken_nonneg:
  assumes "0 \<le> HistoryOperationID r" and "0 \<le> Effect.Order r"
  shows "PagingToken r =
     digits (nat (HistoryOperationID r)) @ CHR ''-'' # digits (nat (Effect.Order r))"
  using assms by (simp add: PagingToken_def fmt_d_def)

text \<open>
  C4, as the code and the cursor codec of the specification have it. For an effect whose
  operation id lies between 0 and 2^63 - 1 and whose order lies between 0 and 2^31 - 1,
  decoding its paging token with the separator \<^verbatim>\<open>-\<close> yields the pair (operation id, order),
  and \<^verbatim>\<open>Page\<close> puts exactly this pair into its predicate (the clamp leaves the order as it
  is).
\<close>

theorem PagingToken_roundtrip:
  assumes "0 \<le> HistoryOperationID r" and "HistoryOperationID r \<le> MaxInt64"
    and "0 \<le> Effect.Order r" and "Effect.Order r \<le> MaxInt32"
    and "Cursor page = PagingToken r"
  shows "CursorInt64Pair page DefaultPairSep = Inr (HistoryOperationID r, Effect.Order r) \<and>
         (\<forall>q. Err q = None \<and> PageQuery.Order page = ''asc'' \<longrightarrow>
            WhereParts (sql (Page q page)) =
              WhereParts (sql q) @ [page_asc (HistoryOperationID r) (Effect.Order r)]) \<and>
         (\<forall>q. Err q = None \<and> PageQuery.Order page = ''desc'' \<longrightarrow>
            WhereParts (sql (Page q page)) =
              WhereParts (sql q) @ [page_desc (HistoryOperationID r) (Effect.Order r)])"
proof -
  let ?a = "digits (nat (HistoryOperationID r))" and ?b = "digits (nat (Effect.Order r))"
  have "split_on CHR ''-'' (Cursor page) = [?a, ?b]"
    using assms(1,3,5)
    by (simp add: PagingToken_nonneg split_on_once sep_not_in_digits all_digits_digits)
  moreover have "parse_integer ?a = Some (HistoryOperationID r)"
    "parse_integer ?b = Some (Effect.Order r)"
    using assms(1,3) by (simp_all add: parse_integer_digits)
  moreover have "is_int64 (HistoryOperationID r)" "is_int64 (Effect.Order r)"
    using assms(1-4) by (simp_all add: is_int64_def MaxInt64_def MaxInt32_def)
  ultimately have dec:
    "CursorInt64Pair page DefaultPairSep = Inr (HistoryOperationID r, Effect.Order r)"
    by (simp add: CursorInt64Pair_def DefaultPairSep_def)
  have "\<not> MaxInt32 < Effect.Order r"
    using assms(4) by simp
  then show ?thesis
    using dec
    by (simp add: Page_def Let_def sq_Where_def sq_OrderBy_def sq_Limit_def)
qed

text \<open>The theorem at the effect (42, 1), whose paging token is \<^verbatim>\<open>42-1\<close>.\<close>

theorem PagingToken_roundtrip_witness:
  "PagingToken (effect_at 42 1) = ''42-1'' \<and>
   CursorInt64Pair \<lparr>Cursor = PagingToken (effect_at 42 1), Order = ''asc'', Limit = 10\<rparr>
     DefaultPairSep = Inr (42, 1)"
  using PagingToken_roundtrip [of "effect_at 42 1"
      "\<lparr>Cursor = PagingToken (effect_at 42 1), Order = ''asc'', Limit = 10\<rparr>"]
  by (simp add: effect_at_def MaxInt64_def MaxInt32_def PagingToken_def fmt_d_def digits.simps
      digit_char_def)

text \<open>
  C4 as stated ranges over every operation id and every order of the \<^verbatim>\<open>int32\<close> column. The
  token of the effect (-5, 1) is \<^verbatim>\<open>-5-1\<close> and that of (42, -1) is \<^verbatim>\<open>42--1\<close>: neither is two
  integer fields joined by one separator, and decoding fails.
\<close>

theorem PagingToken_negative_counterexample:
  "PagingToken (effect_at (- 5) 1) = ''-5-1'' \<and>
   CursorInt64Pair \<lparr>Cursor = PagingToken (effect_at (- 5) 1), Order = ''asc'', Limit = 10\<rparr>
     DefaultPairSep = Inl MalformedCursor \<and>
   PagingToken (effect_at 42 (- 1)) = ''42--1'' \<and>
   CursorInt64Pair \<lparr>Cursor = PagingToken (effect_at 42 (- 1)), Order = ''asc'', Limit = 10\<rparr>
     DefaultPairSep = Inl MalformedCursor"
  by (simp add: effect_at_def PagingToken_def fmt_d_def digits.simps digit_char_def
      CursorInt64Pair_def DefaultPairSep_def)

section \<open>The lexical identifier\<close>

lemma decimal_value_snoc:
  "decimal_value (s @ [c]) = 10 * decimal_value s + (of_char c - 48)"
  by (induction s) (simp_all add: algebra_simps)

lemma decimal_value_digits: "decimal_value (digits n) = n"
proof (induction n rule: digits.induct)
  case (1 n)
  show ?case
  proof (cases "n < 10")
    case True
    then show ?thesis
      by (subst digits.simps) (simp add: of_char_digit_char)
  next
    case False
    have "n mod 10 < 10" by simp
    then have "of_char (digit_char (n mod 10)) - 48 = n mod 10"
      by (simp add: of_char_digit_char)
    with False 1 show ?thesis
      by (subst digits.simps) (simp add: decimal_value_snoc)
  qed
qed

lemma length_digits: "0 < k \<Longrightarrow> n < 10 ^ k \<Longrightarrow> length (digits n) \<le> k"
proof (induction n arbitrary: k rule: digits.induct)
  case (1 n)
  show ?case
  proof (cases "n < 10")
    case True
    with 1 show ?thesis
      by (subst digits.simps) simp
  next
    case False
    obtain j where k: "k = Suc j"
      using 1(2) by (cases k) auto
    have "0 < j"
      using False 1(3) k by (cases j) auto
    moreover have "n div 10 < 10 ^ j"
      using 1(3) k by (simp add: less_mult_imp_div_less)
    ultimately have "length (digits (n div 10)) \<le> j"
      using 1(1) False by simp
    with False k show ?thesis
      by (subst digits.simps) simp
  qed
qed

lemma all_digits_zeros: "all_digits (replicate k CHR ''0'')"
  by (induction k) simp_all

lemma all_digits_zero_pad: "all_digits s \<Longrightarrow> all_digits (zero_pad w s)"
  by (simp add: zero_pad_def all_digits_append all_digits_zeros)

lemma decimal_value_zeros: "decimal_value (replicate k CHR ''0'' @ s) = decimal_value s"
  by (induction k) simp_all

lemma decimal_value_zero_pad: "decimal_value (zero_pad w s) = decimal_value s"
  by (simp add: zero_pad_def decimal_value_zeros)

lemma length_zero_pad: "length s \<le> w \<Longrightarrow> length (zero_pad w s) = w"
  by (simp add: zero_pad_def)

lemma decimal_value_bound: "all_digits s \<Longrightarrow> decimal_value s < 10 ^ length s"
proof (induction s)
  case Nil
  then show ?case by simp
next
  case (Cons c s)
  define P :: nat where "P = 10 ^ length s"
  have "(of_char c :: nat) \<le> 57"
    using Cons.prems by simp
  then have "(of_char c :: nat) - 48 \<le> 9"
    by arith
  then have "((of_char c :: nat) - 48) * P \<le> 9 * P"
    by (rule mult_le_mono1)
  moreover have "decimal_value s < P"
    using Cons by (simp add: P_def)
  ultimately have "((of_char c :: nat) - 48) * P + decimal_value s < 9 * P + P"
    by (rule add_le_less_mono)
  then show ?case
    by (simp add: P_def)
qed

lemma positional_less:
  fixes a b x y N :: nat
  assumes "x < N" and "y < N"
  shows "(a * N + x < b * N + y) = (a < b \<or> (a = b \<and> x < y))"
proof (cases "a < b")
  case True
  then have "Suc a * N \<le> b * N"
    by (simp only: mult_le_mono1 Suc_leI)
  then have "a * N + x < b * N + y"
    using assms(1) by simp
  with True show ?thesis by simp
next
  case False
  show ?thesis
  proof (cases "a = b")
    case True
    then show ?thesis by simp
  next
    case ne: False
    with False have "b < a" by simp
    then have "Suc b * N \<le> a * N"
      by (simp only: mult_le_mono1 Suc_leI)
    then have "\<not> a * N + x < b * N + y"
      using assms(2) by simp
    with False ne show ?thesis by simp
  qed
qed

lemma digit_order:
  assumes "48 \<le> (of_char c :: nat)" and "48 \<le> (of_char d :: nat)"
  shows "((of_char c :: nat) < of_char d) = ((of_char c :: nat) - 48 < of_char d - 48)"
    and "(c = d) = ((of_char c :: nat) - 48 = of_char d - 48)"
proof -
  show "((of_char c :: nat) < of_char d) = ((of_char c :: nat) - 48 < of_char d - 48)"
    using assms by arith
  have "(c = d) = ((of_char c :: nat) = of_char d)"
    by simp
  also have "\<dots> = ((of_char c :: nat) - 48 = of_char d - 48)"
    using assms by arith
  finally show "(c = d) = ((of_char c :: nat) - 48 = of_char d - 48)" .
qed

lemma positional_eq:
  fixes a b x y N :: nat
  assumes "x < N" and "y < N"
  shows "(a * N + x = b * N + y) = (a = b \<and> x = y)"
  using positional_less [OF assms, of a b] positional_less [OF assms(2,1), of b a]
  by (metis less_irrefl_nat nat_neq_iff)

lemma digits_eq:
  assumes "length s = length t"
  shows "all_digits s \<Longrightarrow> all_digits t \<Longrightarrow> (s = t) = (decimal_value s = decimal_value t)"
  using assms
proof (induction s t rule: list_induct2)
  case Nil
  then show ?case by simp
next
  case (Cons c s d t)
  have b: "decimal_value s < 10 ^ length s" "decimal_value t < 10 ^ length s"
    using Cons decimal_value_bound [of s] decimal_value_bound [of t] by simp_all
  have "(s = t) = (decimal_value s = decimal_value t)"
    using Cons by simp
  moreover have "(c = d) = ((of_char c :: nat) - 48 = of_char d - 48)"
    using Cons.prems by (simp add: digit_order(2))
  ultimately show ?case
    using positional_eq [OF b, of "of_char c - 48" "of_char d - 48"] Cons.hyps by simp
qed

lemma string_less_digits:
  assumes "length s = length t"
  shows "all_digits s \<Longrightarrow> all_digits t \<Longrightarrow>
    string_less s t = (decimal_value s < decimal_value t)"
  using assms
proof (induction s t rule: list_induct2)
  case Nil
  then show ?case by simp
next
  case (Cons c s d t)
  have b: "decimal_value s < 10 ^ length s" "decimal_value t < 10 ^ length s"
    using Cons decimal_value_bound [of s] decimal_value_bound [of t] by simp_all
  have "string_less s t = (decimal_value s < decimal_value t)"
    using Cons by simp
  moreover have "(c = d) = ((of_char c :: nat) - 48 = of_char d - 48)"
    "((of_char c :: nat) < of_char d) = ((of_char c :: nat) - 48 < of_char d - 48)"
    using Cons.prems by (simp_all add: digit_order)
  moreover have "(s = t) = (decimal_value s = decimal_value t)"
    using Cons digits_eq [of s t] by simp
  ultimately show ?case
    using positional_less [OF b, of "of_char c - 48" "of_char d - 48"] Cons.hyps by simp
qed

lemma string_less_append:
  "length x = length y \<Longrightarrow>
     string_less (x @ r) (y @ r') = (string_less x y \<or> (x = y \<and> string_less r r'))"
  by (induction x y rule: list_induct2) auto

lemma padded:
  assumes "0 < w" and "n < 10 ^ w"
  shows "length (zero_pad w (digits n)) = w" and "all_digits (zero_pad w (digits n))"
    and "decimal_value (zero_pad w (digits n)) = n"
  using assms
  by (simp_all add: length_zero_pad length_digits all_digits_zero_pad all_digits_digits
      decimal_value_zero_pad decimal_value_digits)

lemma padded_less:
  assumes "0 < w" and "n < 10 ^ w" and "m < 10 ^ w"
  shows "string_less (zero_pad w (digits n)) (zero_pad w (digits m)) = (n < m)"
    and "(zero_pad w (digits n) = zero_pad w (digits m)) = (n = m)"
  using string_less_digits [of "zero_pad w (digits n)" "zero_pad w (digits m)"]
    digits_eq [of "zero_pad w (digits n)" "zero_pad w (digits m)"]
    padded [OF assms(1,2)] padded [OF assms(1,3)]
  by simp_all

text \<open>
  C5, as the code has it. For two effects whose operation ids lie between 0 and 2^63 - 1
  and whose orders lie between 0 and 2^31 - 1, the identifier of the first is smaller than
  that of the second, as strings compared byte by byte, exactly when the pair (operation
  id, order) of the first is smaller than that of the second.
\<close>

theorem ID_order:
  assumes "0 \<le> HistoryOperationID a" and "HistoryOperationID a \<le> MaxInt64"
    and "0 \<le> Effect.Order a" and "Effect.Order a \<le> MaxInt32"
    and "0 \<le> HistoryOperationID b" and "HistoryOperationID b \<le> MaxInt64"
    and "0 \<le> Effect.Order b" and "Effect.Order b \<le> MaxInt32"
  shows "string_less (ID a) (ID b) =
           pair_less (HistoryOperationID a, Effect.Order a)
             (HistoryOperationID b, Effect.Order b)"
proof -
  let ?ha = "nat (HistoryOperationID a)" and ?hb = "nat (HistoryOperationID b)"
  let ?oa = "nat (Effect.Order a)" and ?ob = "nat (Effect.Order b)"
  have h: "?ha < 10 ^ 19" "?hb < 10 ^ 19"
    using assms(2,6) by (simp_all add: MaxInt64_def)
  have o: "?oa < 10 ^ 10" "?ob < 10 ^ 10"
    using assms(4,8) by (simp_all add: MaxInt32_def)
  have ida: "ID a = zero_pad 19 (digits ?ha) @ CHR ''-'' # zero_pad 10 (digits ?oa)"
    using assms(1,3) by (simp add: ID_def fmt_0d_def)
  have idb: "ID b = zero_pad 19 (digits ?hb) @ CHR ''-'' # zero_pad 10 (digits ?ob)"
    using assms(5,7) by (simp add: ID_def fmt_0d_def)
  have len: "length (zero_pad 19 (digits ?ha)) = length (zero_pad 19 (digits ?hb))"
    using padded(1) [of 19 ?ha] padded(1) [of 19 ?hb] h by simp
  have "string_less (ID a) (ID b) =
      (string_less (zero_pad 19 (digits ?ha)) (zero_pad 19 (digits ?hb)) \<or>
       (zero_pad 19 (digits ?ha) = zero_pad 19 (digits ?hb) \<and>
        string_less (zero_pad 10 (digits ?oa)) (zero_pad 10 (digits ?ob))))"
    unfolding ida idb string_less_append [OF len] by simp
  also have "\<dots> = (?ha < ?hb \<or> (?ha = ?hb \<and> ?oa < ?ob))"
    using padded_less [of 19 ?ha ?hb] padded_less [of 10 ?oa ?ob] h o by simp
  also have "\<dots> = pair_less (HistoryOperationID a, Effect.Order a)
      (HistoryOperationID b, Effect.Order b)"
    using assms(1,3,5,7) by (auto simp: pair_less_def)
  finally show ?thesis .
qed

lemma ID_samples:
  "ID (effect_at 42 1) = ''0000000000000000042-0000000001''"
  "ID (effect_at 42 2) = ''0000000000000000042-0000000002''"
  "ID (effect_at (- 1) 1) = ''-000000000000000001-0000000001''"
  "ID (effect_at (- 2) 1) = ''-000000000000000002-0000000001''"
  by code_simp+

text \<open>
  The theorem at the effects (42, 1) and (42, 2), with their identifiers.
\<close>

theorem ID_order_witness:
  "ID (effect_at 42 1) = ''0000000000000000042-0000000001'' \<and>
   ID (effect_at 42 2) = ''0000000000000000042-0000000002'' \<and>
   string_less (ID (effect_at 42 1)) (ID (effect_at 42 2)) \<and>
   \<not> string_less (ID (effect_at 42 2)) (ID (effect_at 42 1))"
proof -
  have "string_less (ID (effect_at 42 1)) (ID (effect_at 42 2))"
    using ID_order [of "effect_at 42 1" "effect_at 42 2"]
    by (simp add: effect_at_def MaxInt64_def MaxInt32_def pair_less_def)
  moreover have "\<not> string_less (ID (effect_at 42 2)) (ID (effect_at 42 1))"
    using ID_order [of "effect_at 42 2" "effect_at 42 1"]
    by (simp add: effect_at_def MaxInt64_def MaxInt32_def pair_less_def)
  ultimately show ?thesis
    by (simp only: ID_samples simp_thms)
qed

text \<open>
  C5 as stated ranges over any two effects. \<^verbatim>\<open>%019d\<close> writes the sign first, so the
  identifier of (-1, 1) is smaller than that of (-2, 1), and the pair (-1, 1) is not
  smaller than (-2, 1).
\<close>

theorem ID_negative_counterexample:
  "ID (effect_at (- 1) 1) = ''-000000000000000001-0000000001'' \<and>
   ID (effect_at (- 2) 1) = ''-000000000000000002-0000000001'' \<and>
   string_less (ID (effect_at (- 1) 1)) (ID (effect_at (- 2) 1)) \<and>
   \<not> pair_less (HistoryOperationID (effect_at (- 1) 1), Effect.Order (effect_at (- 1) 1))
       (HistoryOperationID (effect_at (- 2) 1), Effect.Order (effect_at (- 2) 1))"
  by (simp add: ID_samples) (simp add: pair_less_def effect_at_def)

end
